theory Spec2Isabelle
  imports Complex_Main
begin

section \<open>JavaScript numbers\<close>

text \<open>
  The calculators compute on JavaScript numbers, the values of the IEEE 754 binary64
  format. A number is modelled as a finite value, one of the two infinities, or
  not-a-number. The special values follow IEEE 754: not-a-number is contagious, compares
  false with everything and is not equal to itself; infinities absorb finite values. There
  is one zero, which divides like the positive zero.

  Arithmetic comes in two forms. The operations \<open>add\<close>, \<open>sub\<close>, \<open>mul\<close> and \<open>divide_num\<close>
  give the exact real result on finite values. The operations \<open>fadd\<close>, \<open>fsub\<close>, \<open>fmul\<close>
  and \<open>fdiv\<close> round that result to the nearest value of the format, ties to even, with
  overflow to infinity and gradual underflow, as the machine does. The averaging and
  comparison functions, of which the rounding decides what holds, are embedded with the
  rounding operations; for the other functions the results are stated as the expressions
  that the code evaluates, read in exact arithmetic.
\<close>

datatype number = Fin real | PInf | NInf | NaN

fun isFinite :: "number \<Rightarrow> bool" where
  "isFinite (Fin x) = True"
| "isFinite PInf = False"
| "isFinite NInf = False"
| "isFinite NaN = False"

text \<open>\<^verbatim>\<open>a < b\<close>, \<^verbatim>\<open>a > b\<close>, \<^verbatim>\<open>a <= b\<close> and \<^verbatim>\<open>a === b\<close>.\<close>

fun lt :: "number \<Rightarrow> number \<Rightarrow> bool" where
  "lt (Fin x) (Fin y) = (x < y)"
| "lt (Fin x) PInf = True"
| "lt NInf (Fin y) = True"
| "lt NInf PInf = True"
| "lt a b = False"

definition gt :: "number \<Rightarrow> number \<Rightarrow> bool" where
  "gt a b = lt b a"

fun le :: "number \<Rightarrow> number \<Rightarrow> bool" where
  "le (Fin x) (Fin y) = (x \<le> y)"
| "le NaN b = False"
| "le a NaN = False"
| "le NInf b = True"
| "le a PInf = True"
| "le a b = False"

definition strict_eq :: "number \<Rightarrow> number \<Rightarrow> bool" where
  "strict_eq a b = (a = b \<and> a \<noteq> NaN)"

text \<open>The sign of a number that is not not-a-number, and the infinity of a sign
  (a zero sign is the invalid operation).\<close>

fun sign_of :: "number \<Rightarrow> real" where
  "sign_of (Fin x) = sgn x"
| "sign_of PInf = 1"
| "sign_of NInf = - 1"
| "sign_of NaN = 0"

definition inf_of :: "real \<Rightarrow> number" where
  "inf_of s = (if 0 < s then PInf else if s < 0 then NInf else NaN)"

fun neg :: "number \<Rightarrow> number" where
  "neg (Fin x) = Fin (- x)"
| "neg PInf = NInf"
| "neg NInf = PInf"
| "neg NaN = NaN"

fun add :: "number \<Rightarrow> number \<Rightarrow> number" where
  "add (Fin x) (Fin y) = Fin (x + y)"
| "add NaN b = NaN"
| "add a NaN = NaN"
| "add PInf NInf = NaN"
| "add NInf PInf = NaN"
| "add PInf b = PInf"
| "add NInf b = NInf"
| "add a PInf = PInf"
| "add a NInf = NInf"

definition sub :: "number \<Rightarrow> number \<Rightarrow> number" where
  "sub a b = add a (neg b)"

fun mul :: "number \<Rightarrow> number \<Rightarrow> number" where
  "mul (Fin x) (Fin y) = Fin (x * y)"
| "mul NaN b = NaN"
| "mul a NaN = NaN"
| "mul a b = inf_of (sign_of a * sign_of b)"

fun divide_num :: "number \<Rightarrow> number \<Rightarrow> number" where
  "divide_num (Fin x) (Fin y) = (if y = 0 then inf_of (sgn x) else Fin (x / y))"
| "divide_num NaN b = NaN"
| "divide_num a NaN = NaN"
| "divide_num (Fin x) b = Fin 0"
| "divide_num a (Fin y) = inf_of (sign_of a * (if y < 0 then - 1 else 1))"
| "divide_num a b = NaN"

text \<open>\<^verbatim>\<open>Math.min\<close>, \<^verbatim>\<open>Math.max\<close> and \<^verbatim>\<open>Math.abs\<close>.\<close>

definition Math_min :: "number \<Rightarrow> number \<Rightarrow> number" where
  "Math_min a b = (if a = NaN \<or> b = NaN then NaN else if lt b a then b else a)"

definition Math_max :: "number \<Rightarrow> number \<Rightarrow> number" where
  "Math_max a b = (if a = NaN \<or> b = NaN then NaN else if lt a b then b else a)"

fun Math_abs :: "number \<Rightarrow> number" where
  "Math_abs (Fin x) = Fin \<bar>x\<bar>"
| "Math_abs PInf = PInf"
| "Math_abs NInf = PInf"
| "Math_abs NaN = NaN"

text \<open>
  Rounding to binary64. \<open>binade y\<close> is the exponent \<open>e\<close> with \<open>2 ^ e \<le> y < 2 ^ (e + 1)\<close> of
  a positive \<open>y\<close>, found by halving or doubling; its fuel covers every exponent that
  matters, and beyond it the result overflows or underflows all the same. A value is
  rounded to a multiple of the unit in the last place of its binade, which holds 53
  significant bits; below the least normal exponent \<open>- 1022\<close> the unit stays
  \<open>2 ^ - 1074\<close>. A result of magnitude \<open>2 ^ 1024\<close> or more is the infinity of its sign.
\<close>

definition pow2 :: "int \<Rightarrow> real" where
  "pow2 k = (if 0 \<le> k then 2 ^ nat k else 1 / 2 ^ nat (- k))"

definition round_half_even :: "real \<Rightarrow> int" where
  "round_half_even x =
     (let f = \<lfloor>x\<rfloor>; d = x - of_int f
      in if d < 1 / 2 then f else if 1 / 2 < d then f + 1 else if even f then f else f + 1)"

fun binade_from :: "nat \<Rightarrow> real \<Rightarrow> int \<Rightarrow> int" where
  "binade_from 0 y e = e"
| "binade_from (Suc n) y e =
     (if 2 \<le> y then binade_from n (y / 2) (e + 1)
      else if y < 1 then binade_from n (y * 2) (e - 1)
      else e)"

definition binade :: "real \<Rightarrow> int" where
  "binade y = binade_from 2200 y 0"

definition round_double :: "real \<Rightarrow> number" where
  "round_double x =
     (if x = 0 then Fin 0
      else let e = max (binade \<bar>x\<bar>) (- 1022);
               u = pow2 (e - 52);
               r = of_int (round_half_even (x / u)) * u
           in if pow2 1024 \<le> \<bar>r\<bar> then inf_of (sgn x) else Fin r)"

fun fl :: "number \<Rightarrow> number" where
  "fl (Fin x) = round_double x"
| "fl PInf = PInf"
| "fl NInf = NInf"
| "fl NaN = NaN"

definition fadd :: "number \<Rightarrow> number \<Rightarrow> number" where
  "fadd a b = fl (add a b)"

definition fsub :: "number \<Rightarrow> number \<Rightarrow> number" where
  "fsub a b = fl (sub a b)"

definition fmul :: "number \<Rightarrow> number \<Rightarrow> number" where
  "fmul a b = fl (mul a b)"

definition fdiv :: "number \<Rightarrow> number \<Rightarrow> number" where
  "fdiv a b = fl (divide_num a b)"

definition MAX_SAFE_INTEGER :: number where
  "MAX_SAFE_INTEGER = Fin 9007199254740991"

section \<open>Errors\<close>

text \<open>A thrown \<^verbatim>\<open>Error\<close> with its message. A function that can throw returns
  \<open>error + 'a\<close>, the error on the left.\<close>

datatype error = Error string

definition and_then :: "error + 'a \<Rightarrow> ('a \<Rightarrow> error + 'b) \<Rightarrow> error + 'b" where
  "and_then r f = (case r of Inl e \<Rightarrow> Inl e | Inr v \<Rightarrow> f v)"

section \<open>lib/math/utils.ts\<close>

definition clamp :: "number \<Rightarrow> number \<Rightarrow> number \<Rightarrow> number" where
  "clamp n mn mx = Math_min mx (Math_max mn n)"

definition assertPositive :: "string \<Rightarrow> number \<Rightarrow> error + unit" where
  "assertPositive name n =
     (if \<not> isFinite n \<or> le n (Fin 0) then Inl (Error (name @ '' must be > 0'')) else Inr ())"

definition assertNonNegative :: "string \<Rightarrow> number \<Rightarrow> error + unit" where
  "assertNonNegative name n =
     (if \<not> isFinite n \<or> lt n (Fin 0) then Inl (Error (name @ '' must be >= 0'')) else Inr ())"

section \<open>lib/math/types.ts\<close>

datatype Side = Long | Short

record PnlInput =
  side :: Side
  entryPrice :: number
  exitPrice :: number
  quantity :: number
  feeRate :: "number option"

record PnlResult =
  notionalEntry :: number
  notionalExit :: number
  grossPnl :: number
  fees :: number
  netPnl :: number
  roiOnNotionalEntry :: number

record AvgEntryLeg =
  price :: number
  quantity :: number

record AvgEntryResult =
  totalQty :: number
  totalCost :: number
  avgPrice :: number

record TargetAvgResult =
  requiredQty :: number

record LiquidationInput =
  side :: Side
  entryPrice :: number
  leverage :: number
  mmr :: "number option"

record Assumptions =
  mmr :: number
  simplified :: bool

record LiquidationResult =
  liquidationPrice :: number
  assumptions :: Assumptions

section \<open>lib/math/trading.ts\<close>

text \<open>
  A function whose parameter object is destructured at once takes the parameters one by
  one, in the order of the object type. Where a parameter has the name of a record field,
  the function is written as an abstraction, which binds the name anew.
\<close>

definition calcPnl :: "PnlInput \<Rightarrow> error + PnlResult" where
  "calcPnl input =
     (let side = PnlInput.side input;
          entryPrice = PnlInput.entryPrice input;
          exitPrice = PnlInput.exitPrice input;
          quantity = PnlInput.quantity input;
          feeRate = (case PnlInput.feeRate input of None \<Rightarrow> Fin 0 | Some f \<Rightarrow> f)
      in and_then (assertPositive ''entryPrice'' entryPrice) (\<lambda>_.
         and_then (assertPositive ''exitPrice'' exitPrice) (\<lambda>_.
         and_then (assertPositive ''quantity'' quantity) (\<lambda>_.
         and_then (assertNonNegative ''feeRate'' feeRate) (\<lambda>_.
           let notionalEntry = mul entryPrice quantity;
               notionalExit = mul exitPrice quantity;
               grossPnl = (if side = Long then mul (sub exitPrice entryPrice) quantity
                           else mul (sub entryPrice exitPrice) quantity);
               fees = mul feeRate (add notionalEntry notionalExit);
               netPnl = sub grossPnl fees;
               roiOnNotionalEntry = divide_num netPnl notionalEntry
           in Inr \<lparr>notionalEntry = notionalEntry, notionalExit = notionalExit,
                    grossPnl = grossPnl, fees = fees, netPnl = netPnl,
                    roiOnNotionalEntry = roiOnNotionalEntry\<rparr>)))))"

text \<open>The loop of \<^verbatim>\<open>calcAvgEntry\<close> over the legs, with the running \<^verbatim>\<open>totalQty\<close> and
  \<^verbatim>\<open>totalCost\<close>; it stops at the first leg that fails an assertion.\<close>

fun avgEntryLoop :: "AvgEntryLeg list \<Rightarrow> number \<Rightarrow> number \<Rightarrow> error + (number \<times> number)" where
  "avgEntryLoop [] totalQty' totalCost' = Inr (totalQty', totalCost')"
| "avgEntryLoop (leg # legs) totalQty' totalCost' =
     and_then (assertPositive ''leg.price'' (price leg)) (\<lambda>_.
     and_then (assertPositive ''leg.quantity'' (AvgEntryLeg.quantity leg)) (\<lambda>_.
       avgEntryLoop legs (fadd totalQty' (AvgEntryLeg.quantity leg))
         (fadd totalCost' (fmul (price leg) (AvgEntryLeg.quantity leg)))))"

definition calcAvgEntry :: "AvgEntryLeg list \<Rightarrow> error + AvgEntryResult" where
  "calcAvgEntry legs =
     (if length legs = 0 then Inl (Error ''legs must be a non-empty array'')
      else and_then (avgEntryLoop legs (Fin 0) (Fin 0)) (\<lambda>(totalQty, totalCost).
        let avgPrice = fdiv totalCost totalQty
        in Inr \<lparr>totalQty = totalQty, totalCost = totalCost, avgPrice = avgPrice\<rparr>))"

text \<open>The parameters of \<^verbatim>\<open>calcRequiredQtyForTargetAvg\<close>: currentAvg, currentQty, newPrice,
  targetAvg.\<close>

definition calcRequiredQtyForTargetAvg ::
  "number \<Rightarrow> number \<Rightarrow> number \<Rightarrow> number \<Rightarrow> error + TargetAvgResult" where
  "calcRequiredQtyForTargetAvg currentAvg currentQty newPrice targetAvg =
     and_then (assertPositive ''currentAvg'' currentAvg) (\<lambda>_.
     and_then (assertPositive ''currentQty'' currentQty) (\<lambda>_.
     and_then (assertPositive ''newPrice'' newPrice) (\<lambda>_.
     and_then (assertPositive ''targetAvg'' targetAvg) (\<lambda>_.
       let mn = Math_min currentAvg newPrice;
           mx = Math_max currentAvg newPrice
       in if lt targetAvg mn \<or> gt targetAvg mx then Inr \<lparr>requiredQty = Fin 0\<rparr>
          else let denom = sub newPrice targetAvg
               in if strict_eq denom (Fin 0) then Inr \<lparr>requiredQty = Fin 0\<rparr>
                  else let requiredQty = divide_num (mul currentQty (sub targetAvg currentAvg)) denom
                       in Inr \<lparr>requiredQty = Math_max (Fin 0) requiredQty\<rparr>))))"

definition calcLiquidationPrice :: "LiquidationInput \<Rightarrow> error + LiquidationResult" where
  "calcLiquidationPrice input =
     (let side = LiquidationInput.side input;
          entryPrice = LiquidationInput.entryPrice input;
          leverage = LiquidationInput.leverage input;
          mmr = (case LiquidationInput.mmr input of None \<Rightarrow> Fin (5 / 1000) | Some m \<Rightarrow> m)
      in and_then (assertPositive ''entryPrice'' entryPrice) (\<lambda>_.
         and_then (assertPositive ''leverage'' leverage) (\<lambda>_.
         and_then (assertNonNegative ''mmr'' mmr) (\<lambda>_.
           let invLev = divide_num (Fin 1) leverage;
               liq = (if side = Long
                      then Math_min (mul entryPrice (add (sub (Fin 1) invLev) mmr)) entryPrice
                      else Math_max (mul entryPrice (sub (add (Fin 1) invLev) mmr)) entryPrice);
               liq = clamp liq (Fin 0) MAX_SAFE_INTEGER
           in Inr \<lparr>liquidationPrice = liq,
                    assumptions = \<lparr>Assumptions.mmr = mmr, simplified = True\<rparr>\<rparr>))))"

definition flipSide :: "Side \<Rightarrow> Side" where
  "flipSide = (\<lambda>side. (if side = Long then Short else Long))"

datatype Verdict = Better | Worse | Same

record CompareAvgPnlResult =
  avgPrice :: number
  totalQty :: number
  pnlOld :: number
  pnlNew :: number
  delta :: number
  verdict :: Verdict

text \<open>The parameters of \<^verbatim>\<open>compareAvgPnl\<close>: side, initialPrice, initialQty, addedPrice,
  addedQty, marketPrice.\<close>

definition compareAvgPnl ::
  "Side \<Rightarrow> number \<Rightarrow> number \<Rightarrow> number \<Rightarrow> number \<Rightarrow> number \<Rightarrow> error + CompareAvgPnlResult" where
  "compareAvgPnl = (\<lambda>side initialPrice initialQty addedPrice addedQty marketPrice.
     and_then (assertPositive ''initialPrice'' initialPrice) (\<lambda>_.
     and_then (assertPositive ''initialQty'' initialQty) (\<lambda>_.
     and_then (assertPositive ''addedPrice'' addedPrice) (\<lambda>_.
     and_then (assertPositive ''addedQty'' addedQty) (\<lambda>_.
     and_then (assertPositive ''marketPrice'' marketPrice) (\<lambda>_.
       let totalQty = fadd initialQty addedQty;
           avgPrice = fdiv (fadd (fmul initialPrice initialQty) (fmul addedPrice addedQty)) totalQty;
           pnlOld = (if side = Long then fmul (fsub marketPrice initialPrice) initialQty
                     else fmul (fsub initialPrice marketPrice) initialQty);
           pnlNew = (if side = Long then fmul (fsub marketPrice avgPrice) totalQty
                     else fmul (fsub avgPrice marketPrice) totalQty);
           delta = fsub pnlNew pnlOld;
           verdict = (if lt (Math_abs delta) (round_double (1 / 100000000)) then Same
                      else if gt delta (Fin 0) then Better else Worse)
       in Inr \<lparr>CompareAvgPnlResult.avgPrice = avgPrice, CompareAvgPnlResult.totalQty = totalQty,
                pnlOld = pnlOld, pnlNew = pnlNew, delta = delta, verdict = verdict\<rparr>))))))"

text \<open>The tagged result of \<^verbatim>\<open>qtyForTargetAvg\<close>: \<^verbatim>\<open>{type: "invalid"}\<close>,
  \<^verbatim>\<open>{type: "reverse", qty}\<close> or \<^verbatim>\<open>{type: "ok", qty}\<close>. Its parameters: currentPrice,
  currentQty, targetAvg, newPrice.\<close>

datatype TargetQty = Invalid | Reverse number | Ok number

definition qtyForTargetAvg ::
  "number \<Rightarrow> number \<Rightarrow> number \<Rightarrow> number \<Rightarrow> error + TargetQty" where
  "qtyForTargetAvg currentPrice currentQty targetAvg newPrice =
     and_then (assertPositive ''currentPrice'' currentPrice) (\<lambda>_.
     and_then (assertPositive ''currentQty'' currentQty) (\<lambda>_.
     and_then (assertPositive ''targetAvg'' targetAvg) (\<lambda>_.
     and_then (assertPositive ''newPrice'' newPrice) (\<lambda>_.
       if strict_eq newPrice targetAvg then Inr Invalid
       else let qty = divide_num (mul currentQty (sub targetAvg currentPrice)) (sub newPrice targetAvg)
            in if lt qty (Fin 0) then Inr (Reverse (Math_abs qty))
               else Inr (Ok qty)))))"

section \<open>lib/math/prop.ts\<close>

text \<open>An optional field or parameter is a \<open>number option\<close>; \<^verbatim>\<open>undefined\<close> is \<open>None\<close>.\<close>

definition clampNonNegative :: "number \<Rightarrow> number" where
  "clampNonNegative n = (if isFinite n then Math_max (Fin 0) n else Fin 0)"

definition safeDiv :: "number \<Rightarrow> number \<Rightarrow> number" where
  "safeDiv n d = (if \<not> isFinite n \<or> \<not> isFinite d \<or> strict_eq d (Fin 0) then Fin 0
                  else divide_num n d)"


record TwoLegAverageResult =
  totalQty :: number
  avgEntry :: number
  avgShift :: number
  hasSecondLeg :: bool


record FuturesSpec =
  tickSize :: number
  tickValueUsd :: number
  pointValueUsd :: "number option"

definition derivePointValueUsd :: "FuturesSpec \<Rightarrow> number" where
  "derivePointValueUsd spec =
     (case pointValueUsd spec of
        Some v \<Rightarrow> if isFinite v \<and> gt v (Fin 0) then v else safeDiv (tickValueUsd spec) (tickSize spec)
      | None \<Rightarrow> safeDiv (tickValueUsd spec) (tickSize spec))"

definition pointsToTicks :: "number \<Rightarrow> number \<Rightarrow> number" where
  "pointsToTicks = (\<lambda>points tickSize. safeDiv (Math_abs points) tickSize)"

record FuturesBreach =
  maxAdversePoints :: number
  maxAdverseTicks :: number
  breachPrice :: number

text \<open>The parameters of \<^verbatim>\<open>futuresBreachPrice\<close>: side, avgEntry, contracts,
  remainingDrawdownUsd, spec.\<close>

definition futuresBreachPrice ::
  "Side \<Rightarrow> number \<Rightarrow> number \<Rightarrow> number \<Rightarrow> FuturesSpec \<Rightarrow> FuturesBreach" where
  "futuresBreachPrice = (\<lambda>side avgEntry contracts remainingDrawdownUsd spec.
     (let pointValue = derivePointValueUsd spec;
          denom = mul pointValue (clampNonNegative contracts);
          maxAdversePoints = (if gt denom (Fin 0)
                              then divide_num (clampNonNegative remainingDrawdownUsd) denom
                              else Fin 0);
          maxAdverseTicks = pointsToTicks maxAdversePoints (tickSize spec);
          breachPrice = (if side = Long then sub avgEntry maxAdversePoints
                         else add avgEntry maxAdversePoints)
      in \<lparr>maxAdversePoints = maxAdversePoints, maxAdverseTicks = maxAdverseTicks,
          FuturesBreach.breachPrice = breachPrice\<rparr>))"

record ForexSpec =
  pipSize :: number
  pipValueUsd :: number

record ForexBreach =
  maxAdversePips :: number
  breachPrice :: number

text \<open>The parameters of \<^verbatim>\<open>forexBreachPrice\<close>: side, avgEntry, lots, remainingDrawdownUsd,
  spec.\<close>

definition forexBreachPrice ::
  "Side \<Rightarrow> number \<Rightarrow> number \<Rightarrow> number \<Rightarrow> ForexSpec \<Rightarrow> ForexBreach" where
  "forexBreachPrice = (\<lambda>side avgEntry lots remainingDrawdownUsd spec.
     (let denom = mul (pipValueUsd spec) (clampNonNegative lots);
          maxAdversePips = (if gt denom (Fin 0)
                            then divide_num (clampNonNegative remainingDrawdownUsd) denom
                            else Fin 0);
          maxAdversePriceDist = mul maxAdversePips (pipSize spec);
          breachPrice = (if side = Long then sub avgEntry maxAdversePriceDist
                         else add avgEntry maxAdversePriceDist)
      in \<lparr>maxAdversePips = maxAdversePips, ForexBreach.breachPrice = breachPrice\<rparr>))"

section \<open>The prop-firm calculator page\<close>

datatype Mode = Futures | Forex

text \<open>An absent optional argument is \<^verbatim>\<open>undefined\<close>, which is not-a-number wherever it is
  compared or computed with.\<close>

definition toNumber :: "number option \<Rightarrow> number" where
  "toNumber v = (case v of None \<Rightarrow> NaN | Some n \<Rightarrow> n)"

definition calcAvg2Leg :: "number \<Rightarrow> number \<Rightarrow> number \<Rightarrow> number \<Rightarrow> error + AvgEntryResult" where
  "calcAvg2Leg p1 q1 p2 q2 =
     (if \<not> (gt p1 (Fin 0) \<and> gt q1 (Fin 0) \<and> gt p2 (Fin 0) \<and> gt q2 (Fin 0))
      then Inl (Error ''invalid'')
      else let totalQty = add q1 q2;
               avgPrice = divide_num (add (mul p1 q1) (mul p2 q2)) totalQty;
               totalCost = add (mul p1 q1) (mul p2 q2)
           in Inr \<lparr>AvgEntryResult.totalQty = totalQty, totalCost = totalCost,
                    AvgEntryResult.avgPrice = avgPrice\<rparr>)"

text \<open>The parameters of \<^verbatim>\<open>pnlAtPrice\<close>: mode, side, entryPrice, qty, markPrice and the
  optional pointValueUsd, pipSize, pipValueUsd.\<close>

definition pnlAtPrice ::
  "Mode \<Rightarrow> Side \<Rightarrow> number \<Rightarrow> number \<Rightarrow> number \<Rightarrow>
   number option \<Rightarrow> number option \<Rightarrow> number option \<Rightarrow> error + number" where
  "pnlAtPrice = (\<lambda>mode side entryPrice qty markPrice pointValueUsd pipSize pipValueUsd.
     (if \<not> (gt entryPrice (Fin 0) \<and> gt markPrice (Fin 0) \<and> gt qty (Fin 0))
      then Inl (Error ''invalid'')
      else let dir = (if side = Long then Fin 1 else Fin (- 1))
           in if mode = Futures
              then let pv = toNumber pointValueUsd
                   in if \<not> gt pv (Fin 0) then Inl (Error ''invalid'')
                      else let points = mul (sub markPrice entryPrice) dir
                           in Inr (mul (mul points pv) qty)
              else let pipSize = toNumber pipSize;
                       pipValue = toNumber pipValueUsd
                   in if \<not> (gt pipSize (Fin 0) \<and> gt pipValue (Fin 0)) then Inl (Error ''invalid'')
                      else let pips = mul (divide_num (sub markPrice entryPrice) pipSize) dir
                           in Inr (mul (mul pips pipValue) qty)))"

datatype Unit = Points | Pips

record Breach =
  maxAdverse :: number
  breach :: number
  unit :: Unit

text \<open>The parameters of \<^verbatim>\<open>breachPrice\<close>: mode, side, avgEntry, qty, remainingDrawdownUsd and
  the optional pointValueUsd, pipSize, pipValueUsd.\<close>

definition breachPrice ::
  "Mode \<Rightarrow> Side \<Rightarrow> number \<Rightarrow> number \<Rightarrow> number \<Rightarrow>
   number option \<Rightarrow> number option \<Rightarrow> number option \<Rightarrow> error + Breach" where
  "breachPrice = (\<lambda>mode side avgEntry qty remainingDrawdownUsd pointValueUsd pipSize pipValueUsd.
     (if \<not> (gt avgEntry (Fin 0) \<and> gt qty (Fin 0) \<and> gt remainingDrawdownUsd (Fin 0))
      then Inl (Error ''invalid'')
      else let dir = (if side = Long then Fin (- 1) else Fin 1)
           in if mode = Futures
              then let pv = toNumber pointValueUsd
                   in if \<not> gt pv (Fin 0) then Inl (Error ''invalid'')
                      else let maxAdversePoints = divide_num remainingDrawdownUsd (mul pv qty);
                               price = add avgEntry (mul dir maxAdversePoints)
                           in Inr \<lparr>maxAdverse = maxAdversePoints, breach = price, unit = Points\<rparr>
              else let pipSize = toNumber pipSize;
                       pipValue = toNumber pipValueUsd
                   in if \<not> (gt pipSize (Fin 0) \<and> gt pipValue (Fin 0)) then Inl (Error ''invalid'')
                      else let maxAdversePips = divide_num remainingDrawdownUsd (mul pipValue qty);
                               price = add avgEntry (mul dir (mul maxAdversePips pipSize))
                           in Inr \<lparr>maxAdverse = maxAdversePips, breach = price, unit = Pips\<rparr>))"

text \<open>The values the component \<^verbatim>\<open>PropFirmCalculator\<close> derives from its state with
  \<^verbatim>\<open>useMemo\<close>: \<^verbatim>\<open>effectiveRemaining\<close>, \<^verbatim>\<open>avg\<close> and \<^verbatim>\<open>breach\<close>. A caught exception
  gives \<^verbatim>\<open>null\<close>, here \<open>None\<close>. The value \<^verbatim>\<open>breach\<close> is \<open>breachMemo\<close>, since \<open>breach\<close>
  is a field of its result; it receives \<^verbatim>\<open>avg\<close> and \<^verbatim>\<open>effectiveRemaining\<close> as the
  component computed them.\<close>

definition effectiveRemaining :: "number \<Rightarrow> number \<Rightarrow> number" where
  "effectiveRemaining remainingDrawdownUsd dailyLossRemainingUsd =
     (let a = remainingDrawdownUsd;
          b = dailyLossRemainingUsd
      in if isFinite a \<and> gt a (Fin 0) \<and> isFinite b \<and> gt b (Fin 0) then Math_min a b
         else if isFinite a \<and> gt a (Fin 0) then a
         else if isFinite b \<and> gt b (Fin 0) then b
         else NaN)"

definition avg :: "number \<Rightarrow> number \<Rightarrow> number \<Rightarrow> number \<Rightarrow> AvgEntryResult option" where
  "avg leg1Price leg1Qty leg2Price leg2Qty =
     (case calcAvg2Leg leg1Price leg1Qty leg2Price leg2Qty of
        Inl _ \<Rightarrow> None
      | Inr r \<Rightarrow> Some r)"

definition breachMemo ::
  "AvgEntryResult option \<Rightarrow> Mode \<Rightarrow> Side \<Rightarrow> number \<Rightarrow>
   number \<Rightarrow> number \<Rightarrow> number \<Rightarrow> Breach option" where
  "breachMemo = (\<lambda>avg mode side effectiveRemaining pointValueUsd pipSize pipValueUsd.
     (case avg of
        None \<Rightarrow> None
      | Some a \<Rightarrow>
          if \<not> gt effectiveRemaining (Fin 0) then None
          else (case breachPrice mode side (AvgEntryResult.avgPrice a) (AvgEntryResult.totalQty a)
                       effectiveRemaining (Some pointValueUsd) (Some pipSize) (Some pipValueUsd) of
                  Inl _ \<Rightarrow> None
                | Inr r \<Rightarrow> Some r)))"

section \<open>Helper lemmas\<close>

lemma and_then_Inl: "and_then (Inl e) f = Inl e"
  by (simp add: and_then_def)




lemma Math_min_Fin: "Math_min (Fin a) (Fin b) = Fin (min a b)"
  by (simp add: Math_min_def min_def)

lemma Math_max_Fin: "Math_max (Fin a) (Fin b) = Fin (max a b)"
  by (simp add: Math_max_def max_def)


lemma binade_from_numeral:
  "binade_from (numeral k) y e =
     (if 2 \<le> y then binade_from (pred_numeral k) (y / 2) (e + 1)
      else if y < 1 then binade_from (pred_numeral k) (y * 2) (e - 1)
      else e)"
  by (simp add: numeral_eq_Suc)

lemmas double_eval =
  round_double_def binade_def binade_from_numeral pow2_def round_half_even_def Let_def
  fadd_def fsub_def fmul_def fdiv_def sub_def

text \<open>Roundings of the format: the decimal 0.1, a third, and two ties above \<open>2 ^ 53\<close>,
  where the values of the format are the even integers.\<close>

lemma round_double_examples:
  "round_double (1 / 10) = Fin (3602879701896397 / 36028797018963968)"
  "round_double (1 / 3) = Fin (6004799503160661 / 18014398509481984)"
  "round_double 9007199254740993 = Fin 9007199254740992"
  "round_double 9007199254740995 = Fin 9007199254740996"
  by (simp_all add: double_eval)



section \<open>Profit and loss\<close>



section \<open>Target average\<close>






section \<open>Liquidation price\<close>






section \<open>Drawdown breach price\<close>








section \<open>Effective remaining allowance\<close>

lemma effectiveRemaining_both:
  "isFinite a \<and> gt a (Fin 0) \<Longrightarrow> isFinite b \<and> gt b (Fin 0) \<Longrightarrow>
   effectiveRemaining a b = Math_min a b"
  by (simp add: effectiveRemaining_def Let_def)

lemma effectiveRemaining_first:
  "isFinite a \<and> gt a (Fin 0) \<Longrightarrow> \<not> (isFinite b \<and> gt b (Fin 0)) \<Longrightarrow>
   effectiveRemaining a b = a"
  by (auto simp add: effectiveRemaining_def Let_def)

lemma effectiveRemaining_second:
  "\<not> (isFinite a \<and> gt a (Fin 0)) \<Longrightarrow> isFinite b \<and> gt b (Fin 0) \<Longrightarrow>
   effectiveRemaining a b = b"
  by (auto simp add: effectiveRemaining_def Let_def)

lemma effectiveRemaining_neither:
  "\<not> (isFinite a \<and> gt a (Fin 0)) \<Longrightarrow> \<not> (isFinite b \<and> gt b (Fin 0)) \<Longrightarrow>
   effectiveRemaining a b = NaN"
  by (auto simp add: effectiveRemaining_def Let_def)

lemma breachMemo_not_positive:
  "\<not> gt eff (Fin 0) \<Longrightarrow> breachMemo av mode s eff pv ps pu = None"
  by (simp add: breachMemo_def split: option.splits)

lemma gt_NaN: "\<not> gt NaN b"
  by (simp add: gt_def)

text \<open>
  Claim C5. Of the two drawdown ceilings, the remaining drawdown and the daily loss
  remaining: when both are finite and strictly positive the effective remaining
  allowance is their minimum; when exactly one is, it is that one; when neither is, the
  effective allowance is not-a-number and the breach computation of the page gives no
  result, whatever the position and the instrument.
\<close>

theorem effectiveRemaining_selection:
  "(0 < x \<and> 0 < y \<longrightarrow> effectiveRemaining (Fin x) (Fin y) = Fin (min x y))
   \<and> (isFinite a \<and> gt a (Fin 0) \<and> isFinite b \<and> gt b (Fin 0) \<longrightarrow>
        effectiveRemaining a b = Math_min a b)
   \<and> (isFinite a \<and> gt a (Fin 0) \<and> \<not> (isFinite b \<and> gt b (Fin 0)) \<longrightarrow>
        effectiveRemaining a b = a)
   \<and> (\<not> (isFinite a \<and> gt a (Fin 0)) \<and> isFinite b \<and> gt b (Fin 0) \<longrightarrow>
        effectiveRemaining a b = b)
   \<and> (\<not> (isFinite a \<and> gt a (Fin 0)) \<and> \<not> (isFinite b \<and> gt b (Fin 0)) \<longrightarrow>
        effectiveRemaining a b = NaN
        \<and> breachMemo av mode s (effectiveRemaining a b) pv ps pu = None)"
proof (intro conjI impI)
  assume "0 < x \<and> 0 < y"
  then show "effectiveRemaining (Fin x) (Fin y) = Fin (min x y)"
    using effectiveRemaining_both [of "Fin x" "Fin y"] by (simp add: gt_def Math_min_Fin)
next
  assume "isFinite a \<and> gt a (Fin 0) \<and> isFinite b \<and> gt b (Fin 0)"
  then show "effectiveRemaining a b = Math_min a b"
    using effectiveRemaining_both by blast
next
  assume "isFinite a \<and> gt a (Fin 0) \<and> \<not> (isFinite b \<and> gt b (Fin 0))"
  then show "effectiveRemaining a b = a"
    using effectiveRemaining_first by blast
next
  assume "\<not> (isFinite a \<and> gt a (Fin 0)) \<and> isFinite b \<and> gt b (Fin 0)"
  then show "effectiveRemaining a b = b"
    using effectiveRemaining_second by blast
next
  assume h: "\<not> (isFinite a \<and> gt a (Fin 0)) \<and> \<not> (isFinite b \<and> gt b (Fin 0))"
  then show n: "effectiveRemaining a b = NaN"
    using effectiveRemaining_neither by blast
  show "breachMemo av mode s (effectiveRemaining a b) pv ps pu = None"
    by (simp add: n breachMemo_not_positive gt_NaN)
qed

theorem effectiveRemaining_selection_witness:
  "effectiveRemaining (Fin 500) (Fin 300) = Fin 300
   \<and> effectiveRemaining (Fin 500) NaN = Fin 500
   \<and> effectiveRemaining (Fin 0) (Fin 300) = Fin 300
   \<and> effectiveRemaining NaN (Fin (- 5)) = NaN
   \<and> breachMemo (avg (Fin 5000) (Fin 1) (Fin 5050) (Fin 1)) Futures Long
        (effectiveRemaining NaN (Fin (- 5))) (Fin 50) (Fin (1 / 10000)) (Fin 10) = None"
  using effectiveRemaining_selection [of 500 300 "Fin 500" NaN]
    effectiveRemaining_selection [of 500 300 "Fin 0" "Fin 300"]
    effectiveRemaining_selection [of 500 300 NaN "Fin (- 5)"
      "avg (Fin 5000) (Fin 1) (Fin 5050) (Fin 1)" Futures Long "Fin 50" "Fin (1 / 10000)" "Fin 10"]
  by (auto simp add: gt_def)

section \<open>Invalid breach queries\<close>

lemma clampNonNegative_invalid:
  "\<not> (isFinite n \<and> gt n (Fin 0)) \<Longrightarrow> clampNonNegative n = Fin 0"
  by (cases n) (simp_all add: clampNonNegative_def gt_def Math_max_Fin)

lemma mul_zero_not_gt: "\<not> gt (mul pv (Fin 0)) (Fin 0)"
  by (cases pv) (simp_all add: gt_def inf_of_def)

lemma divide_zero_by_positive: "gt d (Fin 0) \<Longrightarrow> divide_num (Fin 0) d = Fin 0"
  by (cases d) (auto simp add: gt_def)

lemma add_Fin_zero: "add a (Fin 0) = a"
  by (cases a) simp_all

lemma sub_Fin_zero: "sub a (Fin 0) = a"
  by (cases a) (simp_all add: sub_def)

lemma futures_maxAdverse_default:
  assumes "\<not> (isFinite c \<and> gt c (Fin 0)) \<or> \<not> (isFinite r \<and> gt r (Fin 0))"
  shows "maxAdversePoints (futuresBreachPrice s a c r spec) = Fin 0"
proof (cases "isFinite c \<and> gt c (Fin 0)")
  case False
  then show ?thesis
    by (simp add: futuresBreachPrice_def Let_def clampNonNegative_invalid mul_zero_not_gt)
next
  case True
  with assms have "clampNonNegative r = Fin 0"
    using clampNonNegative_invalid by blast
  then show ?thesis
    by (simp add: futuresBreachPrice_def Let_def divide_zero_by_positive)
qed

lemma futures_breach_default:
  assumes "maxAdversePoints (futuresBreachPrice s a c r spec) = Fin 0"
  shows "FuturesBreach.breachPrice (futuresBreachPrice s a c r spec) = a"
  using assms by (simp add: futuresBreachPrice_def Let_def add_Fin_zero sub_Fin_zero)

lemma forex_maxAdverse_default:
  assumes "\<not> (isFinite c \<and> gt c (Fin 0)) \<or> \<not> (isFinite r \<and> gt r (Fin 0))"
  shows "maxAdversePips (forexBreachPrice s a c r spec) = Fin 0"
proof (cases "isFinite c \<and> gt c (Fin 0)")
  case False
  then show ?thesis
    by (simp add: forexBreachPrice_def Let_def clampNonNegative_invalid mul_zero_not_gt)
next
  case True
  with assms have "clampNonNegative r = Fin 0"
    using clampNonNegative_invalid by blast
  then show ?thesis
    by (simp add: forexBreachPrice_def Let_def divide_zero_by_positive)
qed

lemma add_NaN: "add a NaN = NaN"
  by (cases a) simp_all

lemma sub_NaN: "sub a NaN = NaN"
  by (simp add: sub_def add_NaN)

lemma mul_zero_by: "mul (Fin 0) p = (if isFinite p then Fin 0 else NaN)"
  by (cases p) (simp_all add: inf_of_def)

lemma forex_breach_default:
  assumes "maxAdversePips (forexBreachPrice s a c r spec) = Fin 0"
  shows "ForexBreach.breachPrice (forexBreachPrice s a c r spec) =
           (if isFinite (pipSize spec) then a else NaN)"
  using assms
  by (simp add: forexBreachPrice_def Let_def mul_zero_by add_Fin_zero sub_Fin_zero add_NaN sub_NaN)

lemma breachPrice_invalid:
  "\<not> (gt a (Fin 0) \<and> gt q (Fin 0) \<and> gt r (Fin 0)) \<Longrightarrow>
   breachPrice mode s a q r pv ps pu = Inl (Error ''invalid'')"
  by (simp add: breachPrice_def)

lemma avg_invalid:
  "\<not> (gt p1 (Fin 0) \<and> gt q1 (Fin 0) \<and> gt p2 (Fin 0) \<and> gt q2 (Fin 0)) \<Longrightarrow> avg p1 q1 p2 q2 = None"
  by (simp add: avg_def calcAvg2Leg_def)

lemma breachMemo_no_avg: "breachMemo None mode s eff pv ps pu = None"
  by (simp add: breachMemo_def)

text \<open>
  Claim C6, as amended. \<open>breachPrice\<close> of the calculator page fails with the error
  \<^verbatim>\<open>invalid\<close> whenever the average entry, the quantity or the remaining drawdown is
  not-a-number or not strictly positive, and the breach value of the page is absent
  whenever a leg of the average is not-a-number or not strictly positive or the effective
  remaining drawdown is. \<open>futuresBreachPrice\<close> and \<open>forexBreachPrice\<close> of prop.ts never
  fail: when the contracts or lots, or the remaining drawdown, are not finite or not
  strictly positive, they return the maximal adverse move 0; the breach price that
  \<open>futuresBreachPrice\<close> then returns is the average entry itself, and so is the one of
  \<open>forexBreachPrice\<close> when the pip size is finite, while with a pip size that is not
  finite it is not-a-number.
\<close>

theorem breach_invalid_inputs:
  "(\<not> (gt a (Fin 0) \<and> gt q (Fin 0) \<and> gt r (Fin 0)) \<longrightarrow>
      breachPrice mode s a q r pvo pso puo = Inl (Error ''invalid''))
   \<and> (\<not> (gt p1 (Fin 0) \<and> gt q1 (Fin 0) \<and> gt p2 (Fin 0) \<and> gt q2 (Fin 0)) \<or> \<not> gt eff (Fin 0) \<longrightarrow>
      breachMemo (avg p1 q1 p2 q2) mode s eff pv ps pu = None)
   \<and> (\<not> (isFinite q \<and> gt q (Fin 0)) \<or> \<not> (isFinite r \<and> gt r (Fin 0)) \<longrightarrow>
      maxAdversePoints (futuresBreachPrice s a q r fspec) = Fin 0
      \<and> FuturesBreach.breachPrice (futuresBreachPrice s a q r fspec) = a)
   \<and> (\<not> (isFinite q \<and> gt q (Fin 0)) \<or> \<not> (isFinite r \<and> gt r (Fin 0)) \<longrightarrow>
      maxAdversePips (forexBreachPrice s a q r xspec) = Fin 0
      \<and> ForexBreach.breachPrice (forexBreachPrice s a q r xspec) =
          (if isFinite (pipSize xspec) then a else NaN))"
proof (intro conjI impI)
  assume "\<not> (gt a (Fin 0) \<and> gt q (Fin 0) \<and> gt r (Fin 0))"
  then show "breachPrice mode s a q r pvo pso puo = Inl (Error ''invalid'')"
    by (rule breachPrice_invalid)
next
  assume "\<not> (gt p1 (Fin 0) \<and> gt q1 (Fin 0) \<and> gt p2 (Fin 0) \<and> gt q2 (Fin 0)) \<or> \<not> gt eff (Fin 0)"
  then show "breachMemo (avg p1 q1 p2 q2) mode s eff pv ps pu = None"
    using avg_invalid [of p1 q1 p2 q2] breachMemo_no_avg breachMemo_not_positive by metis
next
  assume h: "\<not> (isFinite q \<and> gt q (Fin 0)) \<or> \<not> (isFinite r \<and> gt r (Fin 0))"
  then show m: "maxAdversePoints (futuresBreachPrice s a q r fspec) = Fin 0"
    by (rule futures_maxAdverse_default)
  then show "FuturesBreach.breachPrice (futuresBreachPrice s a q r fspec) = a"
    by (rule futures_breach_default)
next
  assume h: "\<not> (isFinite q \<and> gt q (Fin 0)) \<or> \<not> (isFinite r \<and> gt r (Fin 0))"
  then show m: "maxAdversePips (forexBreachPrice s a q r xspec) = Fin 0"
    by (rule forex_maxAdverse_default)
  then show "ForexBreach.breachPrice (forexBreachPrice s a q r xspec) =
          (if isFinite (pipSize xspec) then a else NaN)"
    by (rule forex_breach_default)
qed

theorem breach_invalid_inputs_witness:
  "breachPrice Futures Long (Fin 5000) NaN (Fin 500) (Some (Fin 50)) None None = Inl (Error ''invalid'')
   \<and> breachMemo (avg (Fin 5000) (Fin 1) (Fin 5050) (Fin 0)) Futures Long (Fin 500)
        (Fin 50) (Fin (1 / 10000)) (Fin 10) = None
   \<and> maxAdversePoints (futuresBreachPrice Long (Fin 5000) NaN (Fin 500)
        \<lparr>tickSize = Fin (1 / 4), tickValueUsd = Fin (25 / 2), pointValueUsd = None\<rparr>) = Fin 0
   \<and> FuturesBreach.breachPrice (futuresBreachPrice Long (Fin 5000) NaN (Fin 500)
        \<lparr>tickSize = Fin (1 / 4), tickValueUsd = Fin (25 / 2), pointValueUsd = None\<rparr>) = Fin 5000
   \<and> ForexBreach.breachPrice (forexBreachPrice Long (Fin 5000) NaN (Fin 500)
        \<lparr>pipSize = Fin (1 / 10000), pipValueUsd = Fin 10\<rparr>) = Fin 5000
   \<and> ForexBreach.breachPrice (forexBreachPrice Long (Fin 5000) (Fin 0) (Fin 500)
        \<lparr>pipSize = NaN, pipValueUsd = Fin 10\<rparr>) = NaN"
  using breach_invalid_inputs [where a = "Fin 5000" and q = NaN and r = "Fin 500"
      and mode = Futures and s = Long and pvo = "Some (Fin 50)" and pso = None and puo = None
      and ?p1.0 = "Fin 5000" and ?q1.0 = "Fin 1" and ?p2.0 = "Fin 5050" and ?q2.0 = "Fin 0"
      and eff = "Fin 500" and pv = "Fin 50" and ps = "Fin (1 / 10000)" and pu = "Fin 10"
      and fspec = "\<lparr>tickSize = Fin (1 / 4), tickValueUsd = Fin (25 / 2), pointValueUsd = None\<rparr>"
      and xspec = "\<lparr>pipSize = Fin (1 / 10000), pipValueUsd = Fin 10\<rparr>"]
    breach_invalid_inputs [where a = "Fin 5000" and q = "Fin 0" and r = "Fin 500" and s = Long
      and xspec = "\<lparr>pipSize = NaN, pipValueUsd = Fin 10\<rparr>"]
  by (simp add: gt_def)

text \<open>
  The claim as stated fails on \<open>futuresBreachPrice\<close>: with 0 contracts it returns a
  result, whose maximal adverse move is 0 and whose breach price is the average entry.
\<close>

theorem futuresBreachPrice_zero_contracts_counterexample:
  "futuresBreachPrice Long (Fin 5000) (Fin 0) (Fin 500)
     \<lparr>tickSize = Fin (1 / 4), tickValueUsd = Fin (25 / 2), pointValueUsd = None\<rparr> =
   \<lparr>maxAdversePoints = Fin 0, maxAdverseTicks = Fin 0, FuturesBreach.breachPrice = Fin 5000\<rparr>"
  by (simp add: futuresBreachPrice_def Let_def derivePointValueUsd_def safeDiv_def strict_eq_def
      clampNonNegative_def Math_max_Fin gt_def pointsToTicks_def sub_def)

section \<open>Input validation\<close>

lemma isl_and_then: "isl (and_then r f) = (isl r \<or> isl (f (projr r)))"
  by (cases r) (simp_all add: and_then_def)

lemma isl_assertPositive: "isl (assertPositive name n) = (\<not> (isFinite n \<and> gt n (Fin 0)))"
  by (cases n) (auto simp add: assertPositive_def gt_def)

lemma isl_assertNonNegative: "isl (assertNonNegative name n) = (\<not> (isFinite n \<and> le (Fin 0) n))"
  by (cases n) (auto simp add: assertNonNegative_def)

lemma assertPositive_NaN_as_zero: "assertPositive name NaN = assertPositive name (Fin 0)"
  by (simp add: assertPositive_def)

lemma isl_calcPnl:
  "isl (calcPnl inp) =
     (\<not> (isFinite (PnlInput.entryPrice inp) \<and> gt (PnlInput.entryPrice inp) (Fin 0)
         \<and> isFinite (exitPrice inp) \<and> gt (exitPrice inp) (Fin 0)
         \<and> isFinite (PnlInput.quantity inp) \<and> gt (PnlInput.quantity inp) (Fin 0)
         \<and> (case feeRate inp of None \<Rightarrow> True | Some f \<Rightarrow> isFinite f \<and> le (Fin 0) f)))"
  by (cases "feeRate inp")
     (auto simp add: calcPnl_def Let_def isl_and_then isl_assertPositive isl_assertNonNegative)

lemma isl_calcLiquidationPrice:
  "isl (calcLiquidationPrice inp) =
     (\<not> (isFinite (LiquidationInput.entryPrice inp) \<and> gt (LiquidationInput.entryPrice inp) (Fin 0)
         \<and> isFinite (leverage inp) \<and> gt (leverage inp) (Fin 0)
         \<and> (case LiquidationInput.mmr inp of None \<Rightarrow> True | Some m \<Rightarrow> isFinite m \<and> le (Fin 0) m)))"
  by (cases "LiquidationInput.mmr inp")
     (auto simp add: calcLiquidationPrice_def Let_def isl_and_then isl_assertPositive
        isl_assertNonNegative)

lemma isl_compareAvgPnl:
  "isl (compareAvgPnl s ip iq ap aq mp) =
     (\<not> (isFinite ip \<and> gt ip (Fin 0) \<and> isFinite iq \<and> gt iq (Fin 0)
         \<and> isFinite ap \<and> gt ap (Fin 0) \<and> isFinite aq \<and> gt aq (Fin 0)
         \<and> isFinite mp \<and> gt mp (Fin 0)))"
  by (auto simp add: compareAvgPnl_def Let_def isl_and_then isl_assertPositive)

lemma isl_qtyForTargetAvg:
  "isl (qtyForTargetAvg cp cq ta np) =
     (\<not> (isFinite cp \<and> gt cp (Fin 0) \<and> isFinite cq \<and> gt cq (Fin 0)
         \<and> isFinite ta \<and> gt ta (Fin 0) \<and> isFinite np \<and> gt np (Fin 0)))"
  by (auto simp add: qtyForTargetAvg_def Let_def isl_and_then isl_assertPositive)

lemma isl_calcRequiredQtyForTargetAvg:
  "isl (calcRequiredQtyForTargetAvg ca cq np ta) =
     (\<not> (isFinite ca \<and> gt ca (Fin 0) \<and> isFinite cq \<and> gt cq (Fin 0)
         \<and> isFinite np \<and> gt np (Fin 0) \<and> isFinite ta \<and> gt ta (Fin 0)))"
  by (auto simp add: calcRequiredQtyForTargetAvg_def Let_def isl_and_then isl_assertPositive)

lemma isl_avgEntryLoop:
  "isl (avgEntryLoop legs tq tc) =
     (\<not> (\<forall>leg \<in> set legs. isFinite (price leg) \<and> gt (price leg) (Fin 0)
            \<and> isFinite (AvgEntryLeg.quantity leg) \<and> gt (AvgEntryLeg.quantity leg) (Fin 0)))"
  by (induction legs arbitrary: tq tc) (auto simp add: isl_and_then isl_assertPositive)

lemma isl_calcAvgEntry:
  "isl (calcAvgEntry legs) =
     (legs = [] \<or> \<not> (\<forall>leg \<in> set legs. isFinite (price leg) \<and> gt (price leg) (Fin 0)
            \<and> isFinite (AvgEntryLeg.quantity leg) \<and> gt (AvgEntryLeg.quantity leg) (Fin 0)))"
  by (auto simp add: calcAvgEntry_def isl_and_then isl_avgEntryLoop split: prod.splits)

lemma isl_pnlAtPrice:
  "isl (pnlAtPrice mode s e q m pvo pso puo) =
     (\<not> (gt e (Fin 0) \<and> gt m (Fin 0) \<and> gt q (Fin 0)
         \<and> (if mode = Futures then gt (toNumber pvo) (Fin 0)
             else gt (toNumber pso) (Fin 0) \<and> gt (toNumber puo) (Fin 0))))"
  by (auto simp add: pnlAtPrice_def Let_def)

lemma isl_breachPrice:
  "isl (breachPrice mode s a q r pvo pso puo) =
     (\<not> (gt a (Fin 0) \<and> gt q (Fin 0) \<and> gt r (Fin 0)
         \<and> (if mode = Futures then gt (toNumber pvo) (Fin 0)
             else gt (toNumber pso) (Fin 0) \<and> gt (toNumber puo) (Fin 0))))"
  by (auto simp add: breachPrice_def Let_def)

lemma isl_calcAvg2Leg:
  "isl (calcAvg2Leg p1 q1 p2 q2) =
     (\<not> (gt p1 (Fin 0) \<and> gt q1 (Fin 0) \<and> gt p2 (Fin 0) \<and> gt q2 (Fin 0)))"
  by (simp add: calcAvg2Leg_def Let_def)


text \<open>
  Claim C7, as amended. \<open>calcPnl\<close> fails exactly when its entry price, exit price or
  quantity is not finite or not strictly positive, or its fee rate is given and is not
  finite or is negative; \<open>calcAvgEntry\<close>, \<open>calcLiquidationPrice\<close>, \<open>compareAvgPnl\<close>,
  \<open>qtyForTargetAvg\<close> and \<open>calcRequiredQtyForTargetAvg\<close> fail exactly when one of their
  inputs violates its constraint in the same sense (or the list of legs is empty), and
  \<open>assertPositive\<close> gives not-a-number the very error it gives 0. The helpers of the
  prop-firm page, \<open>calcAvg2Leg\<close>, \<open>pnlAtPrice\<close> and \<open>breachPrice\<close>, fail exactly when a
  required input is not greater than 0, which not-a-number is not, while positive
  infinity is let through. The helpers of prop.ts never fail: with a count of contracts
  or lots or a remaining drawdown that is not finite or not strictly positive they
  return the maximal adverse move 0.
\<close>

theorem validation_failures:
  "isl (calcPnl inp) =
     (\<not> (isFinite (PnlInput.entryPrice inp) \<and> gt (PnlInput.entryPrice inp) (Fin 0)
         \<and> isFinite (exitPrice inp) \<and> gt (exitPrice inp) (Fin 0)
         \<and> isFinite (PnlInput.quantity inp) \<and> gt (PnlInput.quantity inp) (Fin 0)
         \<and> (case feeRate inp of None \<Rightarrow> True | Some f \<Rightarrow> isFinite f \<and> le (Fin 0) f)))
   \<and> isl (calcAvgEntry legs) =
     (legs = [] \<or> \<not> (\<forall>leg \<in> set legs. isFinite (price leg) \<and> gt (price leg) (Fin 0)
            \<and> isFinite (AvgEntryLeg.quantity leg) \<and> gt (AvgEntryLeg.quantity leg) (Fin 0)))
   \<and> isl (calcLiquidationPrice linp) =
     (\<not> (isFinite (LiquidationInput.entryPrice linp) \<and> gt (LiquidationInput.entryPrice linp) (Fin 0)
         \<and> isFinite (leverage linp) \<and> gt (leverage linp) (Fin 0)
         \<and> (case LiquidationInput.mmr linp of None \<Rightarrow> True | Some m \<Rightarrow> isFinite m \<and> le (Fin 0) m)))
   \<and> isl (compareAvgPnl s ip iq ap aq mp) =
     (\<not> (isFinite ip \<and> gt ip (Fin 0) \<and> isFinite iq \<and> gt iq (Fin 0)
         \<and> isFinite ap \<and> gt ap (Fin 0) \<and> isFinite aq \<and> gt aq (Fin 0)
         \<and> isFinite mp \<and> gt mp (Fin 0)))
   \<and> isl (qtyForTargetAvg cp cq ta np) =
     (\<not> (isFinite cp \<and> gt cp (Fin 0) \<and> isFinite cq \<and> gt cq (Fin 0)
         \<and> isFinite ta \<and> gt ta (Fin 0) \<and> isFinite np \<and> gt np (Fin 0)))
   \<and> isl (calcRequiredQtyForTargetAvg cp cq np ta) =
     (\<not> (isFinite cp \<and> gt cp (Fin 0) \<and> isFinite cq \<and> gt cq (Fin 0)
         \<and> isFinite np \<and> gt np (Fin 0) \<and> isFinite ta \<and> gt ta (Fin 0)))
   \<and> assertPositive name NaN = assertPositive name (Fin 0)
   \<and> isl (calcAvg2Leg p1 q1 p2 q2) =
     (\<not> (gt p1 (Fin 0) \<and> gt q1 (Fin 0) \<and> gt p2 (Fin 0) \<and> gt q2 (Fin 0)))
   \<and> isl (pnlAtPrice mode s e q m pvo pso puo) =
     (\<not> (gt e (Fin 0) \<and> gt m (Fin 0) \<and> gt q (Fin 0)
         \<and> (if mode = Futures then gt (toNumber pvo) (Fin 0)
             else gt (toNumber pso) (Fin 0) \<and> gt (toNumber puo) (Fin 0))))
   \<and> isl (breachPrice mode s a q r pvo pso puo) =
     (\<not> (gt a (Fin 0) \<and> gt q (Fin 0) \<and> gt r (Fin 0)
         \<and> (if mode = Futures then gt (toNumber pvo) (Fin 0)
             else gt (toNumber pso) (Fin 0) \<and> gt (toNumber puo) (Fin 0))))
   \<and> (\<not> (isFinite q \<and> gt q (Fin 0)) \<or> \<not> (isFinite r \<and> gt r (Fin 0)) \<longrightarrow>
        maxAdversePoints (futuresBreachPrice s a q r fspec) = Fin 0
        \<and> maxAdversePips (forexBreachPrice s a q r xspec) = Fin 0)"
proof -
  have defaults: "\<not> (isFinite q \<and> gt q (Fin 0)) \<or> \<not> (isFinite r \<and> gt r (Fin 0)) \<longrightarrow>
        maxAdversePoints (futuresBreachPrice s a q r fspec) = Fin 0
        \<and> maxAdversePips (forexBreachPrice s a q r xspec) = Fin 0"
    using futures_maxAdverse_default [of q r s a fspec] forex_maxAdverse_default [of q r s a xspec]
    by blast
  show ?thesis
    by (intro conjI isl_calcPnl isl_calcAvgEntry isl_calcLiquidationPrice isl_compareAvgPnl
        isl_qtyForTargetAvg isl_calcRequiredQtyForTargetAvg assertPositive_NaN_as_zero
        isl_calcAvg2Leg isl_pnlAtPrice isl_breachPrice defaults)
qed

theorem validation_failures_witness:
  "isl (calcPnl \<lparr>PnlInput.side = Long, PnlInput.entryPrice = Fin 100, exitPrice = Fin 110,
                 PnlInput.quantity = NaN, feeRate = None\<rparr>)
   \<and> isl (calcPnl \<lparr>PnlInput.side = Long, PnlInput.entryPrice = Fin 100, exitPrice = Fin 110,
                 PnlInput.quantity = Fin 0, feeRate = None\<rparr>)
   \<and> isl (calcPnl \<lparr>PnlInput.side = Long, PnlInput.entryPrice = Fin 100, exitPrice = Fin 110,
                 PnlInput.quantity = Fin 1, feeRate = Some (Fin (- 1))\<rparr>)
   \<and> \<not> isl (calcPnl \<lparr>PnlInput.side = Long, PnlInput.entryPrice = Fin 100, exitPrice = Fin 110,
                 PnlInput.quantity = Fin 1, feeRate = None\<rparr>)
   \<and> isl (pnlAtPrice Futures Long (Fin 100) NaN (Fin 110) (Some (Fin 50)) None None)
   \<and> \<not> isl (pnlAtPrice Futures Long PInf (Fin 1) (Fin 110) (Some (Fin 50)) None None)
   \<and> maxAdversePips (forexBreachPrice Long (Fin 100) NaN (Fin 500)
        \<lparr>pipSize = Fin (1 / 10000), pipValueUsd = Fin 10\<rparr>) = Fin 0"
  using
    validation_failures [where inp = "\<lparr>PnlInput.side = Long, PnlInput.entryPrice = Fin 100,
      exitPrice = Fin 110, PnlInput.quantity = NaN, feeRate = None\<rparr>"]
    validation_failures [where inp = "\<lparr>PnlInput.side = Long, PnlInput.entryPrice = Fin 100,
      exitPrice = Fin 110, PnlInput.quantity = Fin 0, feeRate = None\<rparr>"]
    validation_failures [where inp = "\<lparr>PnlInput.side = Long, PnlInput.entryPrice = Fin 100,
      exitPrice = Fin 110, PnlInput.quantity = Fin 1, feeRate = Some (Fin (- 1))\<rparr>"]
    validation_failures [where inp = "\<lparr>PnlInput.side = Long, PnlInput.entryPrice = Fin 100,
      exitPrice = Fin 110, PnlInput.quantity = Fin 1, feeRate = None\<rparr>"
      and mode = Futures and s = Long and e = "Fin 100" and q = NaN and m = "Fin 110"
      and pvo = "Some (Fin 50)" and pso = None and puo = None and a = "Fin 100" and r = "Fin 500"
      and xspec = "\<lparr>pipSize = Fin (1 / 10000), pipValueUsd = Fin 10\<rparr>"]
    validation_failures [where mode = Futures and s = Long and e = PInf and q = "Fin 1"
      and m = "Fin 110" and pvo = "Some (Fin 50)" and pso = None and puo = None]
  by (simp add: gt_def toNumber_def)

text \<open>
  The claim as stated fails on a calculation that requires positivity: \<open>forexBreachPrice\<close>
  with not-a-number lots returns a result, whose maximal adverse move is the default 0.
\<close>

theorem forexBreachPrice_nan_lots_counterexample:
  "forexBreachPrice Short (Fin (11 / 10)) NaN (Fin 500)
     \<lparr>pipSize = Fin (1 / 10000), pipValueUsd = Fin 10\<rparr> =
   \<lparr>maxAdversePips = Fin 0, ForexBreach.breachPrice = Fin (11 / 10)\<rparr>"
  by (simp add: forexBreachPrice_def Let_def clampNonNegative_def gt_def)

section \<open>Average entry\<close>





subsection \<open>The average in exact arithmetic\<close>

text \<open>
  What the rounded results approximate. In the arithmetic of the reals the quotient of
  the sum of price times quantity by the sum of the quantities lies between the least and
  the greatest price, meets one of them only when all prices are equal, and is the price
  of a single leg.
\<close>

lemma sum_qty_pos:
  fixes pqs :: "(real \<times> real) list"
  assumes "pqs \<noteq> []" and "\<forall>x \<in> set pqs. 0 < snd x"
  shows "0 < (\<Sum>x\<leftarrow>pqs. snd x)"
proof (cases pqs)
  case Nil
  with assms(1) show ?thesis by simp
next
  case (Cons pq rest)
  with assms(2) have "0 < snd pq" and "\<forall>x \<in> set rest. 0 \<le> snd x"
    by (auto simp: less_imp_le)
  then have "0 < snd pq" and "0 \<le> (\<Sum>x\<leftarrow>rest. snd x)"
    by (auto intro!: sum_list_nonneg)
  then show ?thesis by (simp add: Cons)
qed

lemma cost_le_upper:
  fixes pqs :: "(real \<times> real) list"
  assumes "\<forall>x \<in> set pqs. 0 < snd x \<and> fst x \<le> M"
  shows "(\<Sum>x\<leftarrow>pqs. fst x * snd x) \<le> M * (\<Sum>x\<leftarrow>pqs. snd x)"
  using assms
proof (induction pqs)
  case Nil
  show ?case by simp
next
  case (Cons pq pqs)
  then have "fst pq * snd pq \<le> M * snd pq"
    and "(\<Sum>x\<leftarrow>pqs. fst x * snd x) \<le> M * (\<Sum>x\<leftarrow>pqs. snd x)"
    by (auto simp: mult_right_mono)
  then show ?case by (simp add: distrib_left)
qed

lemma cost_ge_lower:
  fixes pqs :: "(real \<times> real) list"
  assumes "\<forall>x \<in> set pqs. 0 < snd x \<and> m \<le> fst x"
  shows "m * (\<Sum>x\<leftarrow>pqs. snd x) \<le> (\<Sum>x\<leftarrow>pqs. fst x * snd x)"
  using assms
proof (induction pqs)
  case Nil
  show ?case by simp
next
  case (Cons pq pqs)
  then have "m * snd pq \<le> fst pq * snd pq"
    and "m * (\<Sum>x\<leftarrow>pqs. snd x) \<le> (\<Sum>x\<leftarrow>pqs. fst x * snd x)"
    by (auto simp: mult_right_mono)
  then show ?case by (simp add: distrib_left)
qed

lemma cost_less_upper:
  fixes pqs :: "(real \<times> real) list"
  assumes "\<forall>x \<in> set pqs. 0 < snd x \<and> fst x \<le> M" and "\<exists>x \<in> set pqs. fst x < M"
  shows "(\<Sum>x\<leftarrow>pqs. fst x * snd x) < M * (\<Sum>x\<leftarrow>pqs. snd x)"
  using assms
proof (induction pqs)
  case Nil
  then show ?case by simp
next
  case (Cons pq pqs)
  from Cons.prems(1) have q: "0 < snd pq" and le: "fst pq \<le> M"
    and rest: "\<forall>x \<in> set pqs. 0 < snd x \<and> fst x \<le> M"
    by auto
  show ?case
  proof (cases "fst pq < M")
    case True
    with q have "fst pq * snd pq < M * snd pq" by simp
    moreover have "(\<Sum>x\<leftarrow>pqs. fst x * snd x) \<le> M * (\<Sum>x\<leftarrow>pqs. snd x)"
      using rest by (rule cost_le_upper)
    ultimately show ?thesis by (simp add: distrib_left)
  next
    case False
    with Cons.prems(2) have "\<exists>x \<in> set pqs. fst x < M" by auto
    then have "(\<Sum>x\<leftarrow>pqs. fst x * snd x) < M * (\<Sum>x\<leftarrow>pqs. snd x)"
      using Cons.IH rest by blast
    moreover from q le have "fst pq * snd pq \<le> M * snd pq" by (simp add: mult_right_mono)
    ultimately show ?thesis by (simp add: distrib_left)
  qed
qed

lemma cost_greater_lower:
  fixes pqs :: "(real \<times> real) list"
  assumes "\<forall>x \<in> set pqs. 0 < snd x \<and> m \<le> fst x" and "\<exists>x \<in> set pqs. m < fst x"
  shows "m * (\<Sum>x\<leftarrow>pqs. snd x) < (\<Sum>x\<leftarrow>pqs. fst x * snd x)"
  using assms
proof (induction pqs)
  case Nil
  then show ?case by simp
next
  case (Cons pq pqs)
  from Cons.prems(1) have q: "0 < snd pq" and le: "m \<le> fst pq"
    and rest: "\<forall>x \<in> set pqs. 0 < snd x \<and> m \<le> fst x"
    by auto
  show ?case
  proof (cases "m < fst pq")
    case True
    with q have "m * snd pq < fst pq * snd pq" by simp
    moreover have "m * (\<Sum>x\<leftarrow>pqs. snd x) \<le> (\<Sum>x\<leftarrow>pqs. fst x * snd x)"
      using rest by (rule cost_ge_lower)
    ultimately show ?thesis by (simp add: distrib_left)
  next
    case False
    with Cons.prems(2) have "\<exists>x \<in> set pqs. m < fst x" by auto
    then have "m * (\<Sum>x\<leftarrow>pqs. snd x) < (\<Sum>x\<leftarrow>pqs. fst x * snd x)"
      using Cons.IH rest by blast
    moreover from q le have "m * snd pq \<le> fst pq * snd pq" by (simp add: mult_right_mono)
    ultimately show ?thesis by (simp add: distrib_left)
  qed
qed

lemma exact_weighted_average_between:
  fixes pqs :: "(real \<times> real) list"
  assumes nonempty: "pqs \<noteq> []"
    and positive: "\<forall>x \<in> set pqs. 0 < fst x \<and> 0 < snd x"
    and cost: "cost = (\<Sum>x\<leftarrow>pqs. fst x * snd x)"
    and qty: "qty = (\<Sum>x\<leftarrow>pqs. snd x)"
  shows "Min (fst ` set pqs) \<le> cost / qty
       \<and> cost / qty \<le> Max (fst ` set pqs)
       \<and> (cost / qty = Min (fst ` set pqs) \<or> cost / qty = Max (fst ` set pqs) \<longrightarrow>
            (\<forall>x \<in> set pqs. fst x = cost / qty))
       \<and> (length pqs = 1 \<longrightarrow> cost / qty = fst (hd pqs) \<and> qty = snd (hd pqs))"
proof -
  let ?m = "Min (fst ` set pqs)" and ?M = "Max (fst ` set pqs)"
  have qpos: "0 < qty"
    using sum_qty_pos [of pqs] nonempty positive by (simp add: qty)
  have upper: "\<forall>x \<in> set pqs. 0 < snd x \<and> fst x \<le> ?M"
    using positive by simp
  have lower: "\<forall>x \<in> set pqs. 0 < snd x \<and> ?m \<le> fst x"
    using positive by simp
  have le_M: "cost / qty \<le> ?M"
    using cost_le_upper [OF upper] qpos by (simp add: cost qty pos_divide_le_eq)
  have ge_m: "?m \<le> cost / qty"
    using cost_ge_lower [OF lower] qpos by (simp add: cost qty pos_le_divide_eq)
  have at_M: "\<forall>x \<in> set pqs. fst x = cost / qty" if eq: "cost / qty = ?M"
  proof -
    have none: "\<not> (\<exists>x \<in> set pqs. fst x < ?M)"
    proof
      assume "\<exists>x \<in> set pqs. fst x < ?M"
      then have "cost < ?M * qty"
        using cost_less_upper [OF upper] by (simp add: cost qty)
      then have "cost / qty < ?M" using qpos by (simp add: pos_divide_less_eq)
      with eq show False by simp
    qed
    show ?thesis
    proof
      fix x assume x: "x \<in> set pqs"
      then have "fst x \<le> ?M" by simp
      moreover from x none have "\<not> fst x < ?M" by blast
      ultimately have "fst x = ?M" by linarith
      with eq show "fst x = cost / qty" by simp
    qed
  qed
  have at_m: "\<forall>x \<in> set pqs. fst x = cost / qty" if eq: "cost / qty = ?m"
  proof -
    have none: "\<not> (\<exists>x \<in> set pqs. ?m < fst x)"
    proof
      assume "\<exists>x \<in> set pqs. ?m < fst x"
      then have "?m * qty < cost"
        using cost_greater_lower [OF lower] by (simp add: cost qty)
      then have "?m < cost / qty" using qpos by (simp add: pos_less_divide_eq)
      with eq show False by simp
    qed
    show ?thesis
    proof
      fix x assume x: "x \<in> set pqs"
      then have "?m \<le> fst x" by simp
      moreover from x none have "\<not> ?m < fst x" by blast
      ultimately have "fst x = ?m" by linarith
      with eq show "fst x = cost / qty" by simp
    qed
  qed
  have single: "cost / qty = fst (hd pqs) \<and> qty = snd (hd pqs)" if "length pqs = 1"
  proof -
    from that obtain pq where pqs: "pqs = [pq]"
      by (cases pqs) auto
    with positive have "0 < snd pq" by simp
    then show ?thesis by (simp add: pqs cost qty)
  qed
  from ge_m le_M at_M at_m single show ?thesis by blast
qed

section \<open>Two-leg average with an optional second leg\<close>




section \<open>Comparison of the profit before and after averaging\<close>






subsection \<open>The delta in exact arithmetic\<close>

text \<open>
  What the computed delta approximates. In the arithmetic of the reals the profit at the
  new average minus the profit of the initial leg is the profit of the added leg alone,
  for a long and for a short.
\<close>

lemma compareAvgPnl_delta_algebra:
  fixes ip iq ap aq mp :: real
  assumes "0 < iq" and "0 < aq"
  shows "(mp - (ip * iq + ap * aq) / (iq + aq)) * (iq + aq) - (mp - ip) * iq = (mp - ap) * aq"
    and "((ip * iq + ap * aq) / (iq + aq) - mp) * (iq + aq) - (ip - mp) * iq = (ap - mp) * aq"
  using assms by (simp_all add: field_simps)

end
